theory Spec2Isabelle
  imports Main "HOL-Library.Sublist"
begin

section \<open>Python values shared by the lessons\<close>

text \<open>
  Python exceptions are values. Every constructor below stands for an instance of a
  subclass of Python's \<open>Exception\<close>, which is what the handlers
  \<open>except Exception as e\<close> of the sources catch; the argument is the text that
  \<open>str(e)\<close> gives. Console output (\<open>print\<close>) is not part of the results the
  functions below return, except where a function's only result is what it prints.
\<close>

datatype exn =
    Exception string
  | ValueError string
  | IndexError string
  | EOFError

fun str :: "exn \<Rightarrow> string" where
  "str (Exception m) = m"
| "str (ValueError m) = m"
| "str (IndexError m) = m"
| "str EOFError = []"

text \<open>
  \<open>try: body except Exception as e: handler(e)\<close>: the handler's own result, exception
  included, is the result of the statement when the body raises.
\<close>

definition try_except :: "exn + 'a \<Rightarrow> (exn \<Rightarrow> exn + 'a) \<Rightarrow> exn + 'a" where
  "try_except body handler = (case body of Inl e \<Rightarrow> handler e | Inr v \<Rightarrow> Inr v)"

text \<open>
  The slice \<open>xs[i:]\<close> of a Python list: a negative start counts from the end and is
  clamped at the first element, a start past the end gives the empty list. The start
  \<open>-0\<close> is \<open>0\<close>, so \<open>xs[-0:]\<close> is the whole list.
\<close>

definition slice_from :: "int \<Rightarrow> 'a list \<Rightarrow> 'a list" where
  "slice_from i xs =
     (if i < 0 then drop (nat (int (length xs) + i)) xs else drop (nat i) xs)"

text \<open>
  \<open>xs.pop()\<close> removes the last element and raises IndexError on an empty list. The
  sources discard the popped element, so the model returns the list that is left.
\<close>

definition pop :: "'a list \<Rightarrow> exn + 'a list" where
  "pop xs = (if xs = [] then Inl (IndexError ''pop from empty list'') else Inr (butlast xs))"

section \<open>Clase 20, 06 - custom.py: the chatbot with a sliding window\<close>

text \<open>
  A chat message is the dictionary \<open>{"role": r, "content": c}\<close>. The object's
  attributes are \<open>system_message\<close>, \<open>messages\<close> and \<open>max_history_tokens\<close>; the
  constructor stores twice \<open>max_history\<close>, a Python integer of any sign.
\<close>

record message =
  role :: string
  content :: string

record chatbot =
  system_message :: message
  messages :: "message list"
  max_history_tokens :: int

definition Chatbot_init :: "string \<Rightarrow> int \<Rightarrow> chatbot" where
  "Chatbot_init system_prompt max_history =
     \<lparr>system_message = \<lparr>role = ''system'', content = system_prompt\<rparr>,
      messages = [\<lparr>role = ''system'', content = system_prompt\<rparr>],
      max_history_tokens = max_history * 2\<rparr>"

text \<open>
  The remote call \<open>openai.chat.completions.create(...)\<close> followed by
  \<open>response.choices[0].message.content\<close> is the environment's move: it either yields
  the assistant's text or raises. \<open>talk\<close> takes that outcome as an argument, so a
  statement about every outcome covers every backend.
\<close>

datatype completion = Reply string | Raise exn

text \<open>
  Lines 25 to 33: the user message is appended, then the window is applied. The result
  is the list passed as \<open>messages=self.messages\<close> to the remote call.
\<close>

definition request_messages :: "chatbot \<Rightarrow> string \<Rightarrow> message list" where
  "request_messages self user_message =
     (let appended = messages self @ [\<lparr>role = ''user'', content = user_message\<rparr>]
      in if int (length appended) > max_history_tokens self + 1
         then [system_message self] @ slice_from (- max_history_tokens self) appended
         else appended)"

definition apology :: string where
  "apology = ''Lo siento, tuve un problema para procesar tu solicitud.''"

text \<open>
  \<open>talk\<close> returns what the call returns or raises, together with the object afterwards.
  On success the reply is appended and returned. In the handler the last message is
  popped and the apology returned; a pop that raised would leave the handler with that
  exception and the list as it was.
\<close>

definition talk :: "chatbot \<Rightarrow> string \<Rightarrow> completion \<Rightarrow> (exn + string) \<times> chatbot" where
  "talk self user_message outcome =
     (let sent = request_messages self user_message
      in case outcome of
           Reply assistant_response \<Rightarrow>
             (Inr assistant_response,
              self\<lparr>messages := sent @ [\<lparr>role = ''assistant'', content = assistant_response\<rparr>]\<rparr>)
         | Raise e \<Rightarrow>
             (case pop sent of
                Inl e' \<Rightarrow> (Inl e', self\<lparr>messages := sent\<rparr>)
              | Inr popped \<Rightarrow> (Inr apology, self\<lparr>messages := popped\<rparr>)))"

text \<open>
  A sequence of calls on one object: each call has its user message and the outcome of
  its remote call. The state after the sequence, whatever the calls returned.
\<close>

fun talks :: "chatbot \<Rightarrow> (string \<times> completion) list \<Rightarrow> chatbot" where
  "talks self [] = self"
| "talks self ((user_message, outcome) # rest) =
     talks (snd (talk self user_message outcome)) rest"

text \<open>
  The history as it would be without a window, for a run in which every remote call
  succeeds: one user message and one assistant message per exchange, oldest first.
\<close>

definition exchanges :: "(string \<times> string) list \<Rightarrow> message list" where
  "exchanges qrs =
     concat (map (\<lambda>(q, r). [\<lparr>role = ''user'', content = q\<rparr>,
                             \<lparr>role = ''assistant'', content = r\<rparr>]) qrs)"

definition successful :: "(string \<times> string) list \<Rightarrow> (string \<times> completion) list" where
  "successful qrs = map (\<lambda>(q, r). (q, Reply r)) qrs"

text \<open>The state the proofs carry along a run of a chatbot built with a window of no negative size.\<close>

definition pinned :: "chatbot \<Rightarrow> bool" where
  "pinned s \<longleftrightarrow>
     0 \<le> max_history_tokens s \<and> messages s \<noteq> [] \<and> hd (messages s) = system_message s"

section \<open>Clase 20, 02 - chatbot.py: the chatbot without a window\<close>

text \<open>
  The object holds \<open>messages\<close> only. \<open>talk\<close> has no handler: an exception of the
  remote call leaves the method, after the user message was appended.
\<close>

definition chatbot02_init :: "string \<Rightarrow> message list" where
  "chatbot02_init system_prompt = [\<lparr>role = ''system'', content = system_prompt\<rparr>]"

definition chatbot02_talk ::
  "message list \<Rightarrow> string \<Rightarrow> completion \<Rightarrow> (exn + string) \<times> message list" where
  "chatbot02_talk self_messages user_message outcome =
     (let appended = self_messages @ [\<lparr>role = ''user'', content = user_message\<rparr>]
      in case outcome of
           Reply assistant_response \<Rightarrow>
             (Inr assistant_response,
              appended @ [\<lparr>role = ''assistant'', content = assistant_response\<rparr>])
         | Raise e \<Rightarrow> (Inl e, appended))"

section \<open>The interactive loop of both chatbot scripts\<close>

text \<open>
  \<open>str.lower()\<close> on the ASCII range: the letters A to Z move to a to z, every other
  character stays. Characters are bytes here; the case tables of Unicode beyond ASCII
  are not modelled, and bytes from 128 on are left as they are.
\<close>

definition lower_char :: "char \<Rightarrow> char" where
  "lower_char c =
     (if 65 \<le> (of_char c :: nat) \<and> (of_char c :: nat) \<le> 90
      then char_of ((of_char c :: nat) + 32) else c)"

definition lower :: "string \<Rightarrow> string" where
  "lower s = map lower_char s"

text \<open>
  A case variant of a word: the same word with some of its letters a to z written as
  capitals.
\<close>

definition upper_char :: "char \<Rightarrow> char" where
  "upper_char c =
     (if 97 \<le> (of_char c :: nat) \<and> (of_char c :: nat) \<le> 122
      then char_of ((of_char c :: nat) - 32) else c)"

definition case_variant :: "string \<Rightarrow> string \<Rightarrow> bool" where
  "case_variant word line = list_all2 (\<lambda>a b. b = a \<or> b = upper_char a) word line"

text \<open>
  \<open>while True: entrada = input(...); if entrada.lower() == "salir": break;
  respuesta = mi_chatbot.talk(entrada); print(respuesta)\<close>. Standard input is the list
  of lines still to come, each with the outcome of the remote call its \<open>talk\<close> would
  make; \<open>input\<close> raises EOFError when no line is left. The result is the replies
  printed, the chatbot at the end, and how the loop was left.
\<close>

datatype ending = Break | Propagated exn

fun main_loop ::
  "('bot \<Rightarrow> string \<Rightarrow> completion \<Rightarrow> (exn + string) \<times> 'bot) \<Rightarrow> 'bot \<Rightarrow>
   (string \<times> completion) list \<Rightarrow> string list \<times> 'bot \<times> ending" where
  "main_loop talk_method mi_chatbot [] = ([], mi_chatbot, Propagated EOFError)"
| "main_loop talk_method mi_chatbot ((entrada, outcome) # rest) =
     (if lower entrada = ''salir'' then ([], mi_chatbot, Break)
      else (case talk_method mi_chatbot entrada outcome of
              (Inl e, bot') \<Rightarrow> ([], bot', Propagated e)
            | (Inr respuesta, bot') \<Rightarrow>
                (case main_loop talk_method bot' rest of
                   (printed, bot'', how) \<Rightarrow> (respuesta # printed, bot'', how))))"

section \<open>Clase 24, rag_chain.py: the question answering chain\<close>

text \<open>
  A LangChain document is its text and its metadata. The retriever, the prompt template
  and the language model are the chain's collaborators: the retriever and the model may
  raise, the template only formats.
\<close>

record document =
  page_content :: string
  metadata :: "(string \<times> string) list"

type_synonym retriever = "string \<Rightarrow> exn + document list"

text \<open>
  \<open>create_chain\<close>: the retriever for \<open>k\<close> is asked of the database manager, then the
  chain is the pipe retriever, prompt, model, output parser. Invoking the chain runs the
  steps in that order and stops at the first that raises.
\<close>

definition create_chain ::
  "(int \<Rightarrow> exn + retriever) \<Rightarrow> (document list \<Rightarrow> string \<Rightarrow> string) \<Rightarrow>
   (string \<Rightarrow> exn + string) \<Rightarrow> int \<Rightarrow> exn + (string \<Rightarrow> exn + string)" where
  "create_chain get_retriever_of prompt llm k =
     (case get_retriever_of k of
        Inl e \<Rightarrow> Inl e
      | Inr retriever \<Rightarrow>
          Inr (\<lambda>question.
                 case retriever question of
                   Inl e \<Rightarrow> Inl e
                 | Inr context \<Rightarrow> llm (prompt context question)))"

text \<open>The fixed part of the text \<open>query\<close> returns from its handler; the o with an acute
  accent is the two bytes of its UTF-8 encoding.\<close>

definition query_apology :: string where
  "query_apology =
     ''Lo siento, ocurri'' @ [CHR 0xC3, CHR 0xB3] @ '' un error al procesar tu pregunta: ''"

definition query ::
  "(int \<Rightarrow> exn + retriever) \<Rightarrow> (document list \<Rightarrow> string \<Rightarrow> string) \<Rightarrow>
   (string \<Rightarrow> exn + string) \<Rightarrow> string \<Rightarrow> int \<Rightarrow> exn + string" where
  "query get_retriever_of prompt llm question k =
     try_except
       (case create_chain get_retriever_of prompt llm k of
          Inl e \<Rightarrow> Inl e
        | Inr rag_chain \<Rightarrow> rag_chain question)
       (\<lambda>e. Inr (query_apology @ str e))"

section \<open>Clase 24, document_processor.py: loading files\<close>

definition endswith :: "string \<Rightarrow> string \<Rightarrow> bool" where
  "endswith s ending_text = suffix ending_text s"

text \<open>
  \<open>load_file\<close>: the loader is chosen by the extension and run; an unknown extension
  raises ValueError. The handler prints and raises the exception again. The two loaders
  (construction and \<open>load()\<close>) are the file system's side and are parameters.
\<close>

definition load_file ::
  "(string \<Rightarrow> exn + document list) \<Rightarrow> (string \<Rightarrow> exn + document list) \<Rightarrow> string \<Rightarrow>
   exn + document list" where
  "load_file PyPDFLoader TextLoader file_path =
     try_except
       (if endswith file_path ''.pdf'' then PyPDFLoader file_path
        else if endswith file_path ''.txt'' then TextLoader file_path
        else Inl (ValueError (''Tipo de archivo no soportado: '' @ file_path @ [CHR 0x0A] @
                              ''Solo se aceptan archivos .txt y .pdf'')))
       (\<lambda>e. Inl e)"

text \<open>
  \<open>load_multiple_files\<close>: the loop over the paths with its two accumulators. Each
  iteration is a \<open>try\<close> whose handler records the path in \<open>failed_files\<close>.
\<close>

fun load_loop ::
  "(string \<Rightarrow> exn + document list) \<Rightarrow> (string \<Rightarrow> exn + document list) \<Rightarrow> string list \<Rightarrow>
   document list \<Rightarrow> string list \<Rightarrow> exn + (document list \<times> string list)" where
  "load_loop PyPDFLoader TextLoader [] all_documents failed_files =
     Inr (all_documents, failed_files)"
| "load_loop PyPDFLoader TextLoader (file_path # rest) all_documents failed_files =
     (case try_except
             (case load_file PyPDFLoader TextLoader file_path of
                Inl e \<Rightarrow> Inl e
              | Inr documents \<Rightarrow> Inr (all_documents @ documents, failed_files))
             (\<lambda>e. Inr (all_documents, failed_files @ [file_path])) of
        Inl e \<Rightarrow> Inl e
      | Inr (all_documents', failed_files') \<Rightarrow>
          load_loop PyPDFLoader TextLoader rest all_documents' failed_files')"

definition load_multiple_files ::
  "(string \<Rightarrow> exn + document list) \<Rightarrow> (string \<Rightarrow> exn + document list) \<Rightarrow> string list \<Rightarrow>
   exn + (document list \<times> string list)" where
  "load_multiple_files PyPDFLoader TextLoader file_paths =
     load_loop PyPDFLoader TextLoader file_paths [] []"

text \<open>What one path contributes: its documents when it loads, nothing when it fails.\<close>

definition loaded_documents ::
  "(string \<Rightarrow> exn + document list) \<Rightarrow> (string \<Rightarrow> exn + document list) \<Rightarrow> string \<Rightarrow>
   document list" where
  "loaded_documents PyPDFLoader TextLoader file_path =
     (case load_file PyPDFLoader TextLoader file_path of Inl e \<Rightarrow> [] | Inr documents \<Rightarrow> documents)"

definition load_fails ::
  "(string \<Rightarrow> exn + document list) \<Rightarrow> (string \<Rightarrow> exn + document list) \<Rightarrow> string \<Rightarrow> bool" where
  "load_fails PyPDFLoader TextLoader file_path = isl (load_file PyPDFLoader TextLoader file_path)"

section \<open>Clase 24, database_manager.py and Clase 23, consulta.py: the vector store\<close>

text \<open>
  The manager's methods call the Chroma client: \<open>_collection.count()\<close>,
  \<open>_collection.get()['ids']\<close>, \<open>_collection.delete(ids=...)\<close>,
  \<open>add_documents\<close> and the similarity search behind the retriever. The client is a
  library outside the repository, so the methods take it as a parameter: a record of
  operations on a store of type \<open>'c\<close> with identifiers of type \<open>'i\<close>, each of which
  may raise.
\<close>

record ('c, 'i) chroma =
  collection_count :: "'c \<Rightarrow> exn + nat"
  collection_get_ids :: "'c \<Rightarrow> exn + 'i list"
  collection_delete :: "'i list \<Rightarrow> 'c \<Rightarrow> exn + 'c"
  vectordb_add_documents :: "document list \<Rightarrow> 'c \<Rightarrow> exn + 'c"
  similarity_search :: "'c \<Rightarrow> string \<Rightarrow> int \<Rightarrow> exn + document list"

text \<open>\<open>add_documents\<close>: the handler prints and raises again; the store is left as it was.\<close>

definition add_documents ::
  "('c, 'i) chroma \<Rightarrow> document list \<Rightarrow> 'c \<Rightarrow> (exn + nat) \<times> 'c" where
  "add_documents client documents vectordb =
     (case vectordb_add_documents client documents vectordb of
        Inl e \<Rightarrow> (Inl e, vectordb)
      | Inr vectordb' \<Rightarrow> (Inr (length documents), vectordb'))"

text \<open>
  \<open>get_retriever\<close>: the retriever keeps a reference to the store and searches it, with
  the \<open>k\<close> it was built with, when it is invoked.
\<close>

definition get_retriever :: "('c, 'i) chroma \<Rightarrow> int \<Rightarrow> 'c \<Rightarrow> retriever" where
  "get_retriever client k vectordb = (\<lambda>question. similarity_search client vectordb question k)"

text \<open>
  The dictionaries the two methods return. The message texts are templates around a
  number or an exception; the model keeps which template and its argument.
\<close>

datatype stats_message = Stats_empty | Stats_active nat | Stats_error exn

record stats =
  count :: nat
  status :: string
  stats_text :: stats_message

definition get_stats :: "('c, 'i) chroma \<Rightarrow> 'c \<Rightarrow> stats" where
  "get_stats client vectordb =
     (case collection_count client vectordb of
        Inr n \<Rightarrow>
          (if n = 0 then \<lparr>count = n, status = ''empty'', stats_text = Stats_empty\<rparr>
           else \<lparr>count = n, status = ''active'', stats_text = Stats_active n\<rparr>)
      | Inl e \<Rightarrow> \<lparr>count = 0, status = ''error'', stats_text = Stats_error e\<rparr>)"

datatype clear_message = Already_empty | Cleaned nat | Clear_error exn

record clear_result =
  success :: bool
  deleted_count :: nat
  clear_text :: clear_message

text \<open>
  \<open>clear_all_documents\<close>: count; return at once when the count is zero; else read all
  identifiers and delete them when the list is not empty. Any exception of the three
  calls ends in the handler, with the store as the failing call left it.
\<close>

definition clear_all_documents :: "('c, 'i) chroma \<Rightarrow> 'c \<Rightarrow> clear_result \<times> 'c" where
  "clear_all_documents client vectordb =
     (case collection_count client vectordb of
        Inl e \<Rightarrow> (\<lparr>success = False, deleted_count = 0, clear_text = Clear_error e\<rparr>, vectordb)
      | Inr n \<Rightarrow>
          if n = 0
          then (\<lparr>success = True, deleted_count = 0, clear_text = Already_empty\<rparr>, vectordb)
          else (case collection_get_ids client vectordb of
                  Inl e \<Rightarrow>
                    (\<lparr>success = False, deleted_count = 0, clear_text = Clear_error e\<rparr>, vectordb)
                | Inr all_ids \<Rightarrow>
                    if all_ids \<noteq> []
                    then (case collection_delete client all_ids vectordb of
                            Inl e \<Rightarrow>
                              (\<lparr>success = False, deleted_count = 0, clear_text = Clear_error e\<rparr>,
                               vectordb)
                          | Inr vectordb' \<Rightarrow>
                              (\<lparr>success = True, deleted_count = n, clear_text = Cleaned n\<rparr>,
                               vectordb'))
                    else (\<lparr>success = True, deleted_count = n, clear_text = Cleaned n\<rparr>,
                          vectordb)))"

text \<open>
  consulta.py, \<open>main\<close>: what the script prints, line by line, or the exception that
  leaves it. The embeddings and the client are taken as built; the search is made with
  \<open>k=3\<close> and has no handler.
\<close>

datatype printed =
    Ask_for_query
  | Loading
  | Searching string
  | No_results
  | Results_header
  | Result nat document

fun print_results :: "nat \<Rightarrow> document list \<Rightarrow> printed list" where
  "print_results i [] = []"
| "print_results i (doc # docs) = Result (i + 1) doc # print_results (i + 1) docs"

definition main :: "('c, 'i) chroma \<Rightarrow> 'c \<Rightarrow> string \<Rightarrow> exn + printed list" where
  "main client vectordb query_text =
     (if query_text = [] then Inr [Ask_for_query]
      else (case similarity_search client vectordb query_text 3 of
              Inl e \<Rightarrow> Inl e
            | Inr results \<Rightarrow>
                if results = [] then Inr [Loading, Searching query_text, No_results]
                else Inr ([Loading, Searching query_text, Results_header] @
                          print_results 0 results)))"

subsection \<open>The store of the specification\<close>

text \<open>
  Modelled from the spec: the Chroma client (collection count, get, delete, add and
  similarity search) is a third-party library, absent from the sources. Sections 3 and
  4.4 of the specification describe it: a vector record is a fragment's text, its
  embedding, its metadata and a stable identifier unique within the store; \<open>add\<close>
  embeds and persists each fragment, a fragment added twice giving two records;
  \<open>query(text, k)\<close> embeds the text and returns the \<open>k\<close> records at the smallest
  distance, ties broken by insertion order, fewer than \<open>k\<close> when the store holds fewer
  and the empty sequence when it is empty; \<open>stats\<close> is the number of records. The
  embedding and the distance are parameters. The operations of this store never raise.
\<close>

text \<open>
  Modelled from the spec: the vector record of section 3 (text, embedding vector,
  metadata, stable identifier) and a store instance, its records in insertion order
  with the next identifier to give out.
\<close>

record 'v vector_record =
  record_id :: nat
  record_text :: string
  record_metadata :: "(string \<times> string) list"
  record_vector :: 'v

record 'v store =
  records :: "'v vector_record list"
  next_id :: nat

text \<open>
  Modelled from the spec: \<open>add(fragments)\<close> of section 4.4, absent from the sources
  (Chroma's \<open>add_documents\<close>). Each fragment is embedded and appended under a fresh
  identifier; nothing is deduplicated.
\<close>

fun persist :: "(string \<Rightarrow> 'v) \<Rightarrow> document list \<Rightarrow> 'v store \<Rightarrow> 'v store" where
  "persist embedder [] c = c"
| "persist embedder (d # ds) c =
     persist embedder ds
       (c\<lparr>records := records c @
             [\<lparr>record_id = next_id c, record_text = page_content d,
               record_metadata = metadata d, record_vector = embedder (page_content d)\<rparr>],
          next_id := next_id c + 1\<rparr>)"

text \<open>
  Modelled from the spec: \<open>query(text, k)\<close> of section 4.4, absent from the sources
  (Chroma's similarity search). The records are ordered by distance to the embedded
  text with a stable sort, so ties keep insertion order, and the first \<open>k\<close> are
  returned as documents.
\<close>

definition nearest ::
  "(string \<Rightarrow> 'v) \<Rightarrow> ('v \<Rightarrow> 'v \<Rightarrow> 'd::linorder) \<Rightarrow> 'v store \<Rightarrow> string \<Rightarrow> int \<Rightarrow> document list" where
  "nearest embedder distance c text k =
     map (\<lambda>r. \<lparr>page_content = record_text r, metadata = record_metadata r\<rparr>)
       (take (nat k) (sort_key (\<lambda>r. distance (embedder text) (record_vector r)) (records c)))"

text \<open>
  Modelled from the spec: the client's operations on this store, absent from the
  sources: the count of section 4.4's \<open>stats()\<close>, the identifiers held, deletion by
  identifier, \<open>add\<close> and \<open>query\<close>.
\<close>

definition spec_store ::
  "(string \<Rightarrow> 'v) \<Rightarrow> ('v \<Rightarrow> 'v \<Rightarrow> 'd::linorder) \<Rightarrow> ('v store, nat) chroma" where
  "spec_store embedder distance =
     \<lparr>collection_count = (\<lambda>c. Inr (length (records c))),
      collection_get_ids = (\<lambda>c. Inr (map record_id (records c))),
      collection_delete = (\<lambda>ids c. Inr (c\<lparr>records := filter (\<lambda>r. record_id r \<notin> set ids) (records c)\<rparr>)),
      vectordb_add_documents = (\<lambda>documents c. Inr (persist embedder documents c)),
      similarity_search = (\<lambda>c text k. Inr (nearest embedder distance c text k))\<rparr>"

section \<open>Properties of the chatbot with a sliding window\<close>

lemma request_messages_no_trim:
  "int (length (messages s)) \<le> max_history_tokens s \<Longrightarrow>
   request_messages s m = messages s @ [\<lparr>role = ''user'', content = m\<rparr>]"
  by (simp add: request_messages_def Let_def)

lemma request_messages_not_Nil: "request_messages s m \<noteq> []"
  by (simp add: request_messages_def Let_def)

lemma request_messages_hd:
  assumes "messages s \<noteq> []" and "hd (messages s) = system_message s"
  shows "hd (request_messages s m) = system_message s"
  using assms by (simp add: request_messages_def Let_def)

lemma request_messages_two:
  assumes "0 \<le> max_history_tokens s" and "messages s \<noteq> []"
  shows "2 \<le> length (request_messages s m)"
  using assms
  by (cases "messages s") (auto simp add: request_messages_def Let_def slice_from_def)

lemma talk_Reply:
  "talk s m (Reply r) =
     (Inr r, s\<lparr>messages := request_messages s m @ [\<lparr>role = ''assistant'', content = r\<rparr>]\<rparr>)"
  by (simp add: talk_def)

text \<open>The list is never empty when the handler pops it, so the pop never raises.\<close>

lemma talk_Raise:
  "talk s m (Raise e) = (Inr apology, s\<lparr>messages := butlast (request_messages s m)\<rparr>)"
  by (simp add: talk_def pop_def request_messages_not_Nil)

lemma talk_fields:
  "system_message (snd (talk s m c)) = system_message s"
  "max_history_tokens (snd (talk s m c)) = max_history_tokens s"
  by (cases c; simp add: talk_Reply talk_Raise)+

lemma butlast_keeps_hd: "2 \<le> length xs \<Longrightarrow> hd (butlast xs) = hd xs \<and> butlast xs \<noteq> []"
  by (cases xs) (auto split: if_splits)

lemma talk_pinned:
  assumes "pinned s"
  shows "pinned (snd (talk s m c))"
proof (cases c)
  case (Reply r)
  with assms request_messages_hd[of s m] request_messages_not_Nil[of s m] show ?thesis
    by (simp add: talk_Reply pinned_def)
next
  case (Raise e)
  with assms request_messages_hd[of s m] request_messages_two[of s m]
    butlast_keeps_hd[of "request_messages s m"]
  show ?thesis
    by (simp add: talk_Raise pinned_def)
qed

lemma talks_pinned: "pinned s \<Longrightarrow> pinned (talks s calls)"
  by (induction s calls rule: talks.induct) (simp_all add: talk_pinned)

lemma talks_system_message: "system_message (talks s calls) = system_message s"
  by (induction s calls rule: talks.induct) (simp_all add: talk_fields)

lemma talks_max_history_tokens: "max_history_tokens (talks s calls) = max_history_tokens s"
  by (induction s calls rule: talks.induct) (simp_all add: talk_fields)

lemma talks_snoc: "talks s (cs @ [(m, c)]) = snd (talk (talks s cs) m c)"
  by (induction s cs rule: talks.induct) simp_all

lemma length_exchanges: "length (exchanges qrs) = 2 * length qrs"
  by (induction qrs) (auto simp: exchanges_def)

lemma exchanges_snoc:
  "exchanges (qrs @ [(q, r)]) =
   exchanges qrs @ [\<lparr>role = ''user'', content = q\<rparr>, \<lparr>role = ''assistant'', content = r\<rparr>]"
  by (simp add: exchanges_def)

text \<open>
  One successful call, seen from a state that holds the system message and the last
  \<open>2k + 1\<close> messages of the history \<open>E\<close> (all of it while it is shorter): the list
  sent, with the reply appended, is the system message and the last \<open>2k + 1\<close> messages
  of the history extended by the new exchange.
\<close>

lemma window_step:
  assumes k: "0 < k" and len: "length E = 2 * n"
    and ms: "messages s = sm # drop (2 * n - (2 * k + 1)) E"
    and sm: "system_message s = sm" and mx: "max_history_tokens s = 2 * int k"
  shows "request_messages s q @ [a] =
         sm # drop (2 * (n + 1) - (2 * k + 1)) (E @ [\<lparr>role = ''user'', content = q\<rparr>, a])"
proof -
  let ?u = "\<lparr>role = ''user'', content = q\<rparr>"
  consider (below) "n < k" | (at) "n = k" | (above) "k < n" by linarith
  then show ?thesis
  proof cases
    case below
    then show ?thesis using assms
      by (simp add: request_messages_def Let_def)
  next
    case at
    have app: "messages s @ [?u] = sm # E @ [?u]" using ms at by simp
    have trim: "int (length (messages s @ [?u])) > max_history_tokens s + 1"
      using app len at mx by simp
    have sl: "slice_from (- max_history_tokens s) (messages s @ [?u]) = drop 1 E @ [?u]"
      using app len at mx k by (simp add: slice_from_def)
    have "request_messages s q = sm # drop 1 E @ [?u]"
      using trim sl sm by (simp add: request_messages_def Let_def)
    then show ?thesis using at len k by simp
  next
    case above
    define d where "d = 2 * n - (2 * k + 1)"
    have d: "d + 2 * k + 1 = 2 * n" using above by (simp add: d_def)
    have ld: "length (drop d E) = 2 * k + 1" using len d by simp
    have app: "messages s @ [?u] = sm # drop d E @ [?u]" using ms by (simp add: d_def)
    have trim: "int (length (messages s @ [?u])) > max_history_tokens s + 1"
      using app ld mx by simp
    have "slice_from (- max_history_tokens s) (messages s @ [?u]) =
          drop 3 (sm # drop d E @ [?u])"
      using app ld mx k by (simp add: slice_from_def)
    also have "\<dots> = drop 2 (drop d E) @ [?u]" using ld k by simp
    also have "\<dots> = drop (d + 2) E @ [?u]" by (simp add: add.commute)
    finally have sl:
      "slice_from (- max_history_tokens s) (messages s @ [?u]) = drop (d + 2) E @ [?u]" .
    have "request_messages s q = sm # drop (d + 2) E @ [?u]"
      using trim sl sm by (simp add: request_messages_def Let_def)
    moreover have "2 * (n + 1) - (2 * k + 1) = d + 2" using d by simp
    moreover have "d + 2 \<le> length E" using len d k by simp
    ultimately show ?thesis by simp
  qed
qed

lemma talks_successful:
  assumes k: "0 < k"
  shows "talks (Chatbot_init p (int k)) (successful qrs) =
         (Chatbot_init p (int k))\<lparr>messages := \<lparr>role = ''system'', content = p\<rparr> #
            drop (2 * length qrs - (2 * k + 1)) (exchanges qrs)\<rparr>"
proof (induction qrs rule: rev_induct)
  case Nil
  show ?case by (simp add: successful_def exchanges_def Chatbot_init_def)
next
  case (snoc x qrs)
  obtain q r where x: "x = (q, r)" by (cases x)
  let ?s = "talks (Chatbot_init p (int k)) (successful qrs)"
  have ms: "messages ?s = \<lparr>role = ''system'', content = p\<rparr> #
            drop (2 * length qrs - (2 * k + 1)) (exchanges qrs)"
    by (simp add: snoc.IH)
  have sm: "system_message ?s = \<lparr>role = ''system'', content = p\<rparr>"
    by (simp add: talks_system_message Chatbot_init_def)
  have mx: "max_history_tokens ?s = 2 * int k"
    by (simp add: talks_max_history_tokens Chatbot_init_def)
  have step: "request_messages ?s q @ [\<lparr>role = ''assistant'', content = r\<rparr>] =
      \<lparr>role = ''system'', content = p\<rparr> #
      drop (2 * (length qrs + 1) - (2 * k + 1)) (exchanges (qrs @ [(q, r)]))"
    using window_step[OF k length_exchanges ms sm mx] by (simp add: exchanges_snoc)
  have "talks (Chatbot_init p (int k)) (successful (qrs @ [x])) = snd (talk ?s q (Reply r))"
    by (simp add: x successful_def talks_snoc)
  also have "\<dots> = ?s\<lparr>messages := \<lparr>role = ''system'', content = p\<rparr> #
      drop (2 * (length qrs + 1) - (2 * k + 1)) (exchanges (qrs @ [(q, r)]))\<rparr>"
    by (simp only: talk_Reply snd_conv step)
  also have "\<dots> = (Chatbot_init p (int k))\<lparr>messages := \<lparr>role = ''system'', content = p\<rparr> #
      drop (2 * length (qrs @ [x]) - (2 * k + 1)) (exchanges (qrs @ [x]))\<rparr>"
    by (simp add: snoc.IH x)
  finally show ?case .
qed

text \<open>The list the next call sends, once at least \<open>k\<close> calls have succeeded.\<close>

lemma request_after_overflow:
  assumes k: "0 < k" and n: "k \<le> length qrs"
  shows "request_messages (talks (Chatbot_init p (int k)) (successful qrs)) q =
         \<lparr>role = ''system'', content = p\<rparr> #
         drop (2 * length qrs + 1 - 2 * k)
           (exchanges qrs @ [\<lparr>role = ''user'', content = q\<rparr>])"
proof -
  let ?s = "talks (Chatbot_init p (int k)) (successful qrs)"
  let ?sys = "\<lparr>role = ''system'', content = p\<rparr>"
  let ?u = "\<lparr>role = ''user'', content = q\<rparr>"
  have ms: "messages ?s = ?sys # drop (2 * length qrs - (2 * k + 1)) (exchanges qrs)"
    by (simp add: talks_successful[OF k])
  have sm: "system_message ?s = ?sys"
    by (simp add: talks_system_message Chatbot_init_def)
  have mx: "max_history_tokens ?s = 2 * int k"
    by (simp add: talks_max_history_tokens Chatbot_init_def)
  have "request_messages ?s q @ [?u] =
        ?sys # drop (2 * (length qrs + 1) - (2 * k + 1)) (exchanges qrs @ [?u, ?u])"
    by (rule window_step[OF k length_exchanges ms sm mx])
  also have "\<dots> = (?sys # drop (2 * length qrs + 1 - 2 * k) (exchanges qrs @ [?u])) @ [?u]"
    using n k by (simp add: length_exchanges)
  finally show ?thesis by simp
qed

text \<open>
  C1, as amended. When the list holds at most \<open>2 * max_history\<close> messages before the
  call, so that appending the user message does not bring the window into play, a
  remote call that raises leaves the whole object exactly as it was before \<open>talk\<close>,
  and \<open>talk\<close> returns the apology: the appended user message is rolled back.
\<close>

theorem talk_failure_rolls_back:
  "int (length (messages s)) \<le> max_history_tokens s \<Longrightarrow>
   talk s m (Raise e) = (Inr apology, s)"
  by (simp add: talk_Raise request_messages_no_trim)

theorem talk_failure_rolls_back_witness:
  "int (length (messages (Chatbot_init ''Eres un historiador'' 3)))
     \<le> max_history_tokens (Chatbot_init ''Eres un historiador'' 3) \<and>
   talk (Chatbot_init ''Eres un historiador'' 3) ''hola'' (Raise (Exception ''timeout'')) =
     (Inr apology, Chatbot_init ''Eres un historiador'' 3)"
proof -
  have h: "int (length (messages (Chatbot_init ''Eres un historiador'' 3)))
             \<le> max_history_tokens (Chatbot_init ''Eres un historiador'' 3)"
    by (simp add: Chatbot_init_def)
  from h talk_failure_rolls_back[OF h] show ?thesis by simp
qed

text \<open>
  C1 as stated fails once the window trims. A chatbot built with \<open>max_history = 1\<close>
  holds three messages after one successful exchange; the next call, whose remote call
  raises, trims the list to the system message and the last two before the pop, and
  leaves two messages, not three.
\<close>

theorem talk_failure_after_trim_counterexample:
  "messages (talks (Chatbot_init ''p'' 1) [(''q1'', Reply ''r1'')]) =
     [\<lparr>role = ''system'', content = ''p''\<rparr>, \<lparr>role = ''user'', content = ''q1''\<rparr>,
      \<lparr>role = ''assistant'', content = ''r1''\<rparr>] \<and>
   messages (snd (talk (talks (Chatbot_init ''p'' 1) [(''q1'', Reply ''r1'')]) ''q2''
                    (Raise (Exception ''timeout'')))) =
     [\<lparr>role = ''system'', content = ''p''\<rparr>, \<lparr>role = ''assistant'', content = ''r1''\<rparr>] \<and>
   length (messages (snd (talk (talks (Chatbot_init ''p'' 1) [(''q1'', Reply ''r1'')]) ''q2''
                    (Raise (Exception ''timeout''))))) \<noteq>
   length (messages (talks (Chatbot_init ''p'' 1) [(''q1'', Reply ''r1'')]))"
  by (simp add: talk_def request_messages_def slice_from_def pop_def Chatbot_init_def Let_def)

text \<open>
  C2, as amended. For a chatbot built with \<open>max_history\<close> of at least one, after more
  than \<open>max_history\<close> calls that all succeeded, the list is the system message followed
  by exactly \<open>2 * max_history + 1\<close> messages, the most recent ones of the history. The
  window keeps \<open>2 * max_history\<close> messages when the user message arrives and the reply
  is appended after that: the list the next call sends is the system message followed
  by exactly \<open>2 * max_history\<close> messages, the most recent ones with the new user
  message last.
\<close>

theorem window_after_overflow:
  assumes "1 \<le> max_history" and "nat max_history < length qrs"
  shows "messages (talks (Chatbot_init p max_history) (successful qrs)) =
           \<lparr>role = ''system'', content = p\<rparr> #
           drop (2 * length qrs - (2 * nat max_history + 1)) (exchanges qrs)
       \<and> length (messages (talks (Chatbot_init p max_history) (successful qrs))) =
           2 * nat max_history + 2
       \<and> request_messages (talks (Chatbot_init p max_history) (successful qrs)) q =
           \<lparr>role = ''system'', content = p\<rparr> #
           drop (2 * length qrs + 1 - 2 * nat max_history)
             (exchanges qrs @ [\<lparr>role = ''user'', content = q\<rparr>])
       \<and> length (request_messages (talks (Chatbot_init p max_history) (successful qrs)) q) =
           2 * nat max_history + 1"
proof -
  have k: "0 < nat max_history" and e: "int (nat max_history) = max_history"
    and n: "nat max_history \<le> length qrs"
    using assms by simp_all
  show ?thesis
    using talks_successful[OF k, of p qrs, unfolded e]
      request_after_overflow[OF k n, of p q, unfolded e] assms(2)
    by (simp add: length_exchanges)
qed

theorem window_after_overflow_witness:
  "(1::int) \<le> 1 \<and> nat 1 < length [(''q1'', ''r1''), (''q2'', ''r2''), (''q3'', ''r3'')] \<and>
   messages (talks (Chatbot_init ''p'' 1)
              (successful [(''q1'', ''r1''), (''q2'', ''r2''), (''q3'', ''r3'')])) =
     [\<lparr>role = ''system'', content = ''p''\<rparr>, \<lparr>role = ''assistant'', content = ''r2''\<rparr>,
      \<lparr>role = ''user'', content = ''q3''\<rparr>, \<lparr>role = ''assistant'', content = ''r3''\<rparr>] \<and>
   request_messages (talks (Chatbot_init ''p'' 1)
              (successful [(''q1'', ''r1''), (''q2'', ''r2''), (''q3'', ''r3'')])) ''q4'' =
     [\<lparr>role = ''system'', content = ''p''\<rparr>, \<lparr>role = ''assistant'', content = ''r3''\<rparr>,
      \<lparr>role = ''user'', content = ''q4''\<rparr>]"
proof -
  have h1: "(1::int) \<le> 1" by simp
  have h2: "nat 1 < length [(''q1'', ''r1''), (''q2'', ''r2''), (''q3'', ''r3'')]" by simp
  from window_after_overflow[where p = "''p''" and q = "''q4''", OF h1 h2] show ?thesis
    by (simp add: exchanges_def)
qed

text \<open>
  C2 as stated fails: with \<open>max_history = 1\<close>, two successful calls leave the system
  message followed by three messages, not two.
\<close>

theorem window_two_trailing_counterexample:
  "messages (talks (Chatbot_init ''p'' 1) [(''q1'', Reply ''r1''), (''q2'', Reply ''r2'')]) =
     [\<lparr>role = ''system'', content = ''p''\<rparr>, \<lparr>role = ''assistant'', content = ''r1''\<rparr>,
      \<lparr>role = ''user'', content = ''q2''\<rparr>, \<lparr>role = ''assistant'', content = ''r2''\<rparr>] \<and>
   length (tl (messages (talks (Chatbot_init ''p'' 1)
                           [(''q1'', Reply ''r1''), (''q2'', Reply ''r2'')]))) \<noteq> 2 * 1"
  by (simp add: talk_def request_messages_def slice_from_def Chatbot_init_def Let_def)

text \<open>
  The window of no negative size: for a chatbot built with \<open>max_history\<close> of at least
  zero, after any sequence of calls, whatever the outcome of each remote call, the list
  is not empty and the system message is at index 0.
\<close>

lemma system_message_kept_nonnegative:
  assumes "0 \<le> max_history"
  shows "messages (talks (Chatbot_init p max_history) calls) \<noteq> [] \<and>
         messages (talks (Chatbot_init p max_history) calls) ! 0 =
           \<lparr>role = ''system'', content = p\<rparr>"
proof -
  let ?s = "talks (Chatbot_init p max_history) calls"
  have "pinned (Chatbot_init p max_history)"
    using assms by (simp add: pinned_def Chatbot_init_def)
  then have i: "pinned ?s" by (rule talks_pinned)
  have "system_message ?s = \<lparr>role = ''system'', content = p\<rparr>"
    by (simp add: talks_system_message Chatbot_init_def)
  with i hd_conv_nth[of "messages ?s"] show ?thesis by (simp add: pinned_def)
qed

text \<open>
  C3. The claim is that after any sequence of calls the list holds the system message
  at index 0. The code breaks it for a negative \<open>max_history\<close>, which the
  constructor accepts without a check. With \<open>max_history = -1\<close> the window test
  \<open>len > -1\<close> always holds and the slice \<open>messages[2:]\<close> of the two messages is
  empty: the list sent is the system message alone, the new user message having been
  dropped, against the comment of lines 30 and 31. When the remote call raises, the
  handler's pop, which the comment of line 47 says removes the user's last message,
  removes the system message and the list is left empty.
\<close>

theorem negative_window_evicts_system_message:
  "request_messages (Chatbot_init ''p'' (- 1)) ''hola'' =
     [\<lparr>role = ''system'', content = ''p''\<rparr>] \<and>
   talk (Chatbot_init ''p'' (- 1)) ''hola'' (Raise (Exception ''timeout'')) =
     (Inr apology, (Chatbot_init ''p'' (- 1))\<lparr>messages := []\<rparr>) \<and>
   messages (talks (Chatbot_init ''p'' (- 1)) [(''hola'', Raise (Exception ''timeout''))]) = []"
  by (simp add: talk_def request_messages_def slice_from_def pop_def Chatbot_init_def Let_def)

section \<open>Properties of the handlers\<close>

lemma talk_returns: "\<exists>answer. fst (talk self user_message outcome) = Inr answer"
  by (cases outcome) (simp_all add: talk_Reply talk_Raise)

lemma query_returns: "\<exists>answer. query get_retriever_of prompt llm question k = Inr answer"
  by (simp add: query_def try_except_def split: sum.splits)

lemma query_handler:
  "query (\<lambda>k. Inl e) prompt llm question k = Inr (query_apology @ str e)"
  "query (\<lambda>k. Inr (\<lambda>q. Inl e)) prompt llm question k = Inr (query_apology @ str e)"
  by (simp_all add: query_def create_chain_def try_except_def)

lemma query_handler_llm:
  "query (\<lambda>k. Inr (\<lambda>q. Inr documents)) prompt (\<lambda>p. Inl e) question k =
     Inr (query_apology @ str e)"
  by (simp add: query_def create_chain_def try_except_def)

text \<open>
  C8. Neither \<open>RAGChain.query\<close> nor \<open>Chatbot.talk\<close> lets an exception of its backend
  out: both always return a string. When building the retriever, the retrieval or the
  language model raises \<open>e\<close>, \<open>query\<close> returns its apology followed by \<open>str(e)\<close>; when
  the completion call raises, \<open>talk\<close> returns its fixed apology, in every state of the
  chatbot.
\<close>

theorem exceptions_become_strings:
  "(\<exists>answer. query get_retriever_of prompt llm question k = Inr answer) \<and>
   query (\<lambda>k. Inl e) prompt llm question k = Inr (query_apology @ str e) \<and>
   query (\<lambda>k. Inr (\<lambda>q. Inl e)) prompt llm question k = Inr (query_apology @ str e) \<and>
   query (\<lambda>k. Inr (\<lambda>q. Inr documents)) prompt (\<lambda>p. Inl e) question k =
     Inr (query_apology @ str e) \<and>
   (\<exists>answer. fst (talk self user_message outcome) = Inr answer) \<and>
   fst (talk self user_message (Raise e)) = Inr apology"
proof -
  have "fst (talk self user_message (Raise e)) = Inr apology"
    by (simp add: talk_Raise)
  with query_returns[of get_retriever_of prompt llm question k]
    talk_returns[of self user_message outcome]
    query_handler[of e prompt llm question k]
    query_handler_llm[of documents prompt e question k]
  show ?thesis by simp
qed

section \<open>Properties of loading files\<close>

lemma load_loop_result:
  "load_loop PyPDFLoader TextLoader file_paths all_documents failed_files =
     Inr (all_documents @ concat (map (loaded_documents PyPDFLoader TextLoader) file_paths),
          failed_files @ filter (load_fails PyPDFLoader TextLoader) file_paths)"
proof (induction file_paths arbitrary: all_documents failed_files)
  case Nil
  show ?case by simp
next
  case (Cons file_path rest)
  show ?case
  proof (cases "load_file PyPDFLoader TextLoader file_path")
    case (Inl e)
    then show ?thesis
      by (simp add: Cons.IH try_except_def loaded_documents_def load_fails_def)
  next
    case (Inr documents)
    then show ?thesis
      by (simp add: Cons.IH try_except_def loaded_documents_def load_fails_def)
  qed
qed

text \<open>
  C9. \<open>load_multiple_files\<close> never raises: it returns the pair of the documents and the
  failed paths. The documents are the concatenation, in the order of the input, of the
  documents of the paths that loaded; the failed paths are, in the order of the input,
  the paths whose load raised.
\<close>

theorem load_multiple_files_skips_failures:
  "load_multiple_files PyPDFLoader TextLoader file_paths =
     Inr (concat (map (loaded_documents PyPDFLoader TextLoader) file_paths),
          filter (load_fails PyPDFLoader TextLoader) file_paths)"
  by (simp add: load_multiple_files_def load_loop_result)

section \<open>Properties of the interactive loop\<close>

lemma lower_upper_char: "lower_char (upper_char a) = lower_char a"
proof (cases "97 \<le> (of_char a :: nat) \<and> (of_char a :: nat) \<le> 122")
  case True
  then have "(of_char a :: nat) - 32 < 256" by linarith
  then have m: "((of_char a :: nat) - 32) mod 256 = of_char a - 32" by simp
  from True have b: "(of_char a :: nat) - 32 + 32 = of_char a" by linarith
  from True have r: "65 \<le> (of_char a :: nat) - 32" "(of_char a :: nat) - 32 \<le> 90"
    by linarith+
  from True have n: "\<not> (of_char a :: nat) \<le> 90" by linarith
  show ?thesis using True
    by (simp add: lower_char_def upper_char_def m b r n)
next
  case False
  then show ?thesis by (auto simp: upper_char_def)
qed

lemma case_variant_lower: "case_variant word line \<Longrightarrow> lower line = lower word"
  unfolding case_variant_def lower_def
  by (induction word line rule: list_all2_induct) (auto simp: lower_upper_char)

lemma lower_salir: "lower ''salir'' = ''salir''"
  by (simp add: lower_def lower_char_def)

text \<open>
  C10. When the line read is a case variant of \<open>salir\<close>, the loop of either script
  (whatever its \<open>talk\<close> method) is left by \<open>break\<close> at once: \<open>talk\<close> is not called, no
  further line is read, and the chatbot is as it was.
\<close>

theorem loop_breaks_on_salir:
  "case_variant ''salir'' entrada \<Longrightarrow>
   main_loop talk_method mi_chatbot ((entrada, outcome) # rest) = ([], mi_chatbot, Break)"
  by (simp add: case_variant_lower lower_salir)

theorem loop_breaks_on_salir_witness:
  "case_variant ''salir'' ''SaLIR'' \<and>
   main_loop talk (Chatbot_init ''p'' 3) [(''SaLIR'', Reply ''x''), (''otra'', Reply ''y'')] =
     ([], Chatbot_init ''p'' 3, Break) \<and>
   main_loop chatbot02_talk (chatbot02_init ''p'')
     [(''SaLIR'', Reply ''x''), (''otra'', Reply ''y'')] = ([], chatbot02_init ''p'', Break)"
proof -
  have h: "case_variant ''salir'' ''SaLIR''" by code_simp
  from h
    loop_breaks_on_salir[where talk_method = talk and mi_chatbot = "Chatbot_init ''p'' 3"
      and outcome = "Reply ''x''" and rest = "[(''otra'', Reply ''y'')]", OF h]
    loop_breaks_on_salir[where talk_method = chatbot02_talk
      and mi_chatbot = "chatbot02_init ''p''"
      and outcome = "Reply ''x''" and rest = "[(''otra'', Reply ''y'')]", OF h]
  show ?thesis by (simp only: simp_thms)
qed

text \<open>
  The loop of 06 - custom.py as a whole: its \<open>talk\<close> never raises, so whenever some
  line of the input is a case variant of \<open>salir\<close> the loop is left by \<open>break\<close>, not by
  an exception, whatever the lines before it and the outcomes of their remote calls.
\<close>

theorem loop_reaches_break:
  "case_variant ''salir'' entrada \<Longrightarrow>
   snd (snd (main_loop talk mi_chatbot (before @ (entrada, outcome) # rest))) = Break"
proof (induction before arbitrary: mi_chatbot)
  case Nil
  then show ?case by (simp add: case_variant_lower lower_salir)
next
  case (Cons x before)
  obtain l c where x: "x = (l, c)" by (cases x)
  obtain r where "fst (talk mi_chatbot l c) = Inr r" using talk_returns by blast
  then obtain b where t: "talk mi_chatbot l c = (Inr r, b)"
    by (cases "talk mi_chatbot l c") simp
  show ?case using Cons.IH[OF Cons.prems, of b]
    by (auto simp add: x t split: prod.splits)
qed

theorem loop_reaches_break_witness:
  "case_variant ''salir'' ''Salir'' \<and>
   main_loop talk (Chatbot_init ''p'' 3)
     [(''hola'', Reply ''buenas''), (''otra'', Raise (Exception ''timeout'')),
      (''Salir'', Reply ''x''), (''nunca'', Reply ''y'')] =
   ([''buenas'', apology],
    (Chatbot_init ''p'' 3)\<lparr>messages :=
       [\<lparr>role = ''system'', content = ''p''\<rparr>, \<lparr>role = ''user'', content = ''hola''\<rparr>,
        \<lparr>role = ''assistant'', content = ''buenas''\<rparr>]\<rparr>,
    Break)"
proof -
  have h: "case_variant ''salir'' ''Salir''" by code_simp
  have l: "lower ''hola'' \<noteq> ''salir''" "lower ''otra'' \<noteq> ''salir''"
    "lower ''Salir'' = ''salir''"
    by code_simp+
  from loop_reaches_break[where mi_chatbot = "Chatbot_init ''p'' 3"
      and before = "[(''hola'', Reply ''buenas''), (''otra'', Raise (Exception ''timeout''))]"
      and outcome = "Reply ''x''" and rest = "[(''nunca'', Reply ''y'')]", OF h]
  have "snd (snd (main_loop talk (Chatbot_init ''p'' 3)
     [(''hola'', Reply ''buenas''), (''otra'', Raise (Exception ''timeout'')),
      (''Salir'', Reply ''x''), (''nunca'', Reply ''y'')])) = Break"
    by simp
  moreover have "main_loop talk (Chatbot_init ''p'' 3)
     [(''hola'', Reply ''buenas''), (''otra'', Raise (Exception ''timeout'')),
      (''Salir'', Reply ''x''), (''nunca'', Reply ''y'')] =
   ([''buenas'', apology],
    (Chatbot_init ''p'' 3)\<lparr>messages :=
       [\<lparr>role = ''system'', content = ''p''\<rparr>, \<lparr>role = ''user'', content = ''hola''\<rparr>,
        \<lparr>role = ''assistant'', content = ''buenas''\<rparr>]\<rparr>,
    Break)"
    by (simp add: l talk_Reply talk_Raise request_messages_def Chatbot_init_def Let_def)
  ultimately show ?thesis using h by simp
qed

section \<open>Properties of the vector store\<close>

lemma length_records_persist:
  "length (records (persist embedder documents c)) = length (records c) + length documents"
  by (induction documents arbitrary: c) simp_all

lemma add_documents_spec_store:
  "add_documents (spec_store embedder distance) documents c =
     (Inr (length documents), persist embedder documents c)"
  by (simp add: add_documents_def spec_store_def)

lemma clear_leaves_no_record:
  "records (snd (clear_all_documents (spec_store embedder distance) c)) = []"
  by (cases "records c") (simp_all add: clear_all_documents_def spec_store_def)

lemma clear_reports:
  "fst (clear_all_documents (spec_store embedder distance) c) =
     (if records c = [] then \<lparr>success = True, deleted_count = 0, clear_text = Already_empty\<rparr>
      else \<lparr>success = True, deleted_count = length (records c),
             clear_text = Cleaned (length (records c))\<rparr>)"
  by (cases "records c") (simp_all add: clear_all_documents_def spec_store_def)

lemma get_stats_empty:
  "records c = [] \<Longrightarrow>
   get_stats (spec_store embedder distance) c =
     \<lparr>count = 0, status = ''empty'', stats_text = Stats_empty\<rparr>"
  by (simp add: get_stats_def spec_store_def)

lemma get_retriever_empty:
  "records c = [] \<Longrightarrow> get_retriever (spec_store embedder distance) k c x = Inr []"
  by (simp add: get_retriever_def spec_store_def nearest_def)

text \<open>
  C4, on the store of the specification. From any store, adding the fragments \<open>F\<close>
  returns their number; the clear that follows succeeds; after it \<open>get_stats\<close> reports
  a count of zero and a retriever for any \<open>k\<close> returns the empty list for any query.
  A clear on a store with no record succeeds, reports zero deleted and changes nothing.
\<close>

theorem add_then_clear_empties:
  "fst (add_documents (spec_store embedder distance) F c) = Inr (length F) \<and>
   success (fst (clear_all_documents (spec_store embedder distance)
                   (snd (add_documents (spec_store embedder distance) F c)))) \<and>
   get_stats (spec_store embedder distance)
      (snd (clear_all_documents (spec_store embedder distance)
              (snd (add_documents (spec_store embedder distance) F c)))) =
     \<lparr>count = 0, status = ''empty'', stats_text = Stats_empty\<rparr> \<and>
   get_retriever (spec_store embedder distance) k
      (snd (clear_all_documents (spec_store embedder distance)
              (snd (add_documents (spec_store embedder distance) F c)))) x = Inr [] \<and>
   clear_all_documents (spec_store embedder distance) (c\<lparr>records := []\<rparr>) =
     (\<lparr>success = True, deleted_count = 0, clear_text = Already_empty\<rparr>, c\<lparr>records := []\<rparr>)"
proof -
  let ?api = "spec_store embedder distance"
  let ?cleared = "snd (clear_all_documents ?api (snd (add_documents ?api F c)))"
  have empty: "records ?cleared = []" by (rule clear_leaves_no_record)
  have "success (fst (clear_all_documents ?api (snd (add_documents ?api F c))))"
    by (simp add: clear_reports)
  moreover have "clear_all_documents ?api (c\<lparr>records := []\<rparr>) =
      (\<lparr>success = True, deleted_count = 0, clear_text = Already_empty\<rparr>, c\<lparr>records := []\<rparr>)"
    by (simp add: clear_all_documents_def spec_store_def)
  moreover have "get_stats ?api ?cleared =
      \<lparr>count = 0, status = ''empty'', stats_text = Stats_empty\<rparr>"
    using empty by (rule get_stats_empty)
  moreover have "get_retriever ?api k ?cleared x = Inr []"
    using empty by (rule get_retriever_empty)
  ultimately show ?thesis
    by (simp add: add_documents_spec_store)
qed

text \<open>
  C5, on the store of the specification. On a store with no record, a retriever for any
  \<open>k\<close> and the similarity search itself return the empty list for any query text, and
  neither raises; the script \<open>consulta.py\<close>, given a query text that is not empty, then
  prints that nothing was found and returns.
\<close>

theorem query_on_empty_store:
  "get_retriever (spec_store embedder distance) k (c\<lparr>records := []\<rparr>) x = Inr [] \<and>
   similarity_search (spec_store embedder distance) (c\<lparr>records := []\<rparr>) x k = Inr [] \<and>
   main (spec_store embedder distance) (c\<lparr>records := []\<rparr>) (first_char # remainder) =
     Inr [Loading, Searching (first_char # remainder), No_results]"
proof -
  have s: "similarity_search (spec_store embedder distance) (c\<lparr>records := []\<rparr>) y j = Inr []"
    for y j
    by (simp add: spec_store_def nearest_def)
  then show ?thesis
    by (simp add: get_retriever_def main_def)
qed

end
